theory Spec2Isabelle
  imports Complex_Main "HOL-Library.Word"
begin

unbundle bit_operations_syntax

section \<open>Values: floats, bytes, clock ticks, exceptions\<close>

text \<open>
  The program runs under MicroPython on the RP2040, where a \<open>float\<close> is an IEEE-754
  binary32 value. A float is modelled by its 32-bit pattern, so \<open>struct.pack('f', x)\<close>
  is exact: it stores the four bytes of the pattern, least significant byte first.
  A Python value that may be \<open>None\<close> is an \<open>option\<close>.
\<close>

type_synonym pyfloat = "32 word"
type_synonym byte = "8 word"

text \<open>The exceptions the modelled code can raise.\<close>

datatype error = TypeError | KeyError | IndexError | ValueError | ZeroDivisionError

text \<open>\<open>math.isnan\<close>: exponent bits all set and a non-zero mantissa.\<close>

definition isnan :: "pyfloat \<Rightarrow> bool" where
  "isnan w = (w AND 0x7F800000 = 0x7F800000 \<and> w AND 0x007FFFFF \<noteq> 0)"

text \<open>The comparison \<open>x > 0\<close> on a float: not a NaN, sign bit clear, not zero.\<close>

definition float_gt_zero :: "pyfloat \<Rightarrow> bool" where
  "float_gt_zero w = (\<not> isnan w \<and> \<not> bit w 31 \<and> w \<noteq> 0)"

text \<open>
  \<open>struct.pack('f', data)\<close> raises \<open>TypeError\<close> when \<open>data\<close> is \<open>None\<close>; otherwise the
  four bytes in little-endian order. \<open>struct.unpack('f', raw)[0]\<close> reads them back.
\<close>

definition float_bytes :: "pyfloat \<Rightarrow> byte list" where
  "float_bytes w = [ucast w, ucast (drop_bit 8 w), ucast (drop_bit 16 w), ucast (drop_bit 24 w)]"

definition struct_pack :: "pyfloat option \<Rightarrow> error + byte list" where
  "struct_pack data = (case data of None \<Rightarrow> Inl TypeError | Some w \<Rightarrow> Inr (float_bytes w))"

definition struct_unpack :: "byte list \<Rightarrow> pyfloat" where
  "struct_unpack raw =
     (ucast (raw ! 0)) OR push_bit 8 (ucast (raw ! 1)) OR
     push_bit 16 (ucast (raw ! 2)) OR push_bit 24 (ucast (raw ! 3))"

text \<open>
  \<open>utime.ticks_ms()\<close> counts milliseconds modulo \<open>TICKS_PERIOD\<close>; \<open>utime.ticks_diff\<close>
  is the wrap-around-safe signed difference. Every reading of the clock is an argument of
  the function that reads it.
\<close>

definition TICKS_PERIOD :: int where
  "TICKS_PERIOD = 2 ^ 30"

definition ticks_diff :: "int \<Rightarrow> int \<Rightarrow> int" where
  "ticks_diff ticks1 ticks2 =
     ((ticks1 - ticks2 + TICKS_PERIOD div 2) mod TICKS_PERIOD) - TICKS_PERIOD div 2"

section \<open>Python containers\<close>

text \<open>
  The cache is a \<open>dict\<close> whose length and iteration order are used, so it is an association
  list with distinct keys: assignment overwrites in place or appends, \<open>del\<close> removes the
  key's pair.
\<close>

fun dict_get :: "('k \<times> 'v) list \<Rightarrow> 'k \<Rightarrow> 'v option" where
  "dict_get [] k = None"
| "dict_get ((k', v') # kvs) k = (if k' = k then Some v' else dict_get kvs k)"

fun dict_set :: "('k \<times> 'v) list \<Rightarrow> 'k \<Rightarrow> 'v \<Rightarrow> ('k \<times> 'v) list" where
  "dict_set [] k v = [(k, v)]"
| "dict_set ((k', v') # kvs) k v =
     (if k' = k then (k, v) # kvs else (k', v') # dict_set kvs k v)"

fun dict_del :: "('k \<times> 'v) list \<Rightarrow> 'k \<Rightarrow> ('k \<times> 'v) list" where
  "dict_del [] k = []"
| "dict_del ((k', v') # kvs) k = (if k' = k then kvs else (k', v') # dict_del kvs k)"

text \<open>
  Subscripting a list with an integer: \<open>IndexError\<close> outside \<open>-len .. len - 1\<close>, and
  \<open>xs[-k]\<close> is the \<open>k\<close>-th element from the end.
\<close>

definition py_index :: "'a list \<Rightarrow> int \<Rightarrow> error + 'a" where
  "py_index xs i =
     (if 0 \<le> i \<and> i < int (length xs) then Inr (xs ! nat i)
      else if i < 0 \<and> - int (length xs) \<le> i then Inr (xs ! nat (int (length xs) + i))
      else Inl IndexError)"

section \<open>lib/EEPROM.py\<close>

text \<open>
  The storage medium is the byte array of the AT24C32, indexed by the word address the
  code sends as the two bytes \<open>high\<close>, \<open>low\<close>. Bus transfers of a write are taken to
  succeed; whether the transfer of a read succeeds is the argument \<open>bus_ok\<close> of
  \<open>read_last_value\<close>, whose \<open>except\<close> branch returns \<open>None\<close>.
\<close>

type_synonym medium = "int \<Rightarrow> byte"

definition PAGE_SIZE :: int where
  "PAGE_SIZE = 32"

definition word_address :: "int \<Rightarrow> int" where
  "word_address a = (let high = drop_bit 8 a AND 0xFF; low = a AND 0xFF in high * 256 + low)"

text \<open>
  \<open>eeprom_write_bytes\<close>: one bus write per byte, byte \<open>i\<close> of \<open>data\<close> at \<open>addr + i\<close>.
\<close>

fun eeprom_write_bytes :: "int \<Rightarrow> byte list \<Rightarrow> medium \<Rightarrow> medium" where
  "eeprom_write_bytes addr [] mem = mem"
| "eeprom_write_bytes addr (d # ds) mem =
     eeprom_write_bytes (addr + 1) ds (mem(word_address addr := d))"

definition write_to_eeprom ::
  "int \<Rightarrow> int \<Rightarrow> pyfloat option \<Rightarrow> medium \<Rightarrow> error + (medium \<times> int \<times> int)" where
  "write_to_eeprom page_num offset data mem =
     (let base_addr = page_num * PAGE_SIZE + offset in
      case struct_pack data of
        Inl e \<Rightarrow> Inl e
      | Inr packed \<Rightarrow>
          (let mem' = eeprom_write_bytes base_addr packed mem;
               offset' = offset + 4
           in if offset' \<ge> PAGE_SIZE then Inr (mem', page_num + 1, 0)
              else Inr (mem', page_num, offset')))"

text \<open>
  \<open>i2c.readfrom(EEPROM_ADDR, 4)\<close> after the address has been sent: the four bytes from
  that word address on.
\<close>

definition i2c_readfrom4 :: "medium \<Rightarrow> int \<Rightarrow> byte list" where
  "i2c_readfrom4 mem addr =
     (let a = word_address addr in [mem a, mem (a + 1), mem (a + 2), mem (a + 3)])"

definition read_last_value :: "bool \<Rightarrow> medium \<Rightarrow> string \<Rightarrow> int \<Rightarrow> pyfloat option" where
  "read_last_value bus_ok mem sensor_type offset =
     (case (if sensor_type = ''MQII'' then Some (0 * PAGE_SIZE + offset * 4)
            else if sensor_type = ''MQIV'' then Some (42 * PAGE_SIZE + offset * 4)
            else if sensor_type = ''TEMP'' then Some (84 * PAGE_SIZE + offset * 4)
            else None) of
        None \<Rightarrow> None
      | Some addr \<Rightarrow>
          if \<not> bus_ok then None
          else (let raw = i2c_readfrom4 mem addr in
                if raw \<noteq> [0xFF, 0xFF, 0xFF, 0xFF] \<and> raw \<noteq> [0x00, 0x00, 0x00, 0x00]
                then Some (struct_unpack raw) else None))"

section \<open>mian.py: configuration and shared state\<close>

definition ADDR_TEMP :: int where
  "ADDR_TEMP = 0x10"

definition ADDR_MQ2 :: int where
  "ADDR_MQ2 = 0x11"

definition ADDR_MQ7 :: int where
  "ADDR_MQ7 = 0x12"

definition ADDR_LIST :: "int list" where
  "ADDR_LIST = [ADDR_TEMP, ADDR_MQ2, ADDR_MQ7]"

definition NAME_MAP :: "int \<rightharpoonup> string" where
  "NAME_MAP = [ADDR_TEMP \<mapsto> ''TEMP'', ADDR_MQ2 \<mapsto> ''MQII'', ADDR_MQ7 \<mapsto> ''MQIV'']"

definition EEPROM_SLOTS :: "int \<rightharpoonup> int list" where
  "EEPROM_SLOTS =
     [ADDR_TEMP \<mapsto> [84, 85, 86, 87], ADDR_MQ2 \<mapsto> [0, 1, 2, 3], ADDR_MQ7 \<mapsto> [42, 43, 44, 45]]"

definition CACHE_SIZE :: int where
  "CACHE_SIZE = 2"

definition TTL_MS :: int where
  "TTL_MS = 600"

text \<open>
  The two locks, and what the two threads do with them and with the structures they
  guard: every \<open>with lock:\<close> block logs its acquire and release, and every function body or
  statement that reads or changes the cache, or the store's bookkeeping and medium, logs
  an access.
\<close>

datatype lock = cache_lock | eeprom_lock

datatype shared = CacheData | StoreData

datatype event = Acquire lock | Release lock | Access shared

text \<open>
  A cache entry is the dict \<open>{'value': .., 'last_used': ..}\<close>, a shadow record of
  \<open>eeprom_ttl\<close> the dict \<open>{"timestamp": .., "value": ..}\<close>. The module's globals are the
  fields of the state.
\<close>

record cache_entry =
  entry_value :: "pyfloat option"
  last_used :: int

record ttl_entry =
  timestamp :: int
  ttl_value :: "pyfloat option"

record state =
  cache :: "(int \<times> cache_entry) list"
  write_pointers :: "int \<rightharpoonup> int"
  eeprom_ttl :: "int \<rightharpoonup> ttl_entry"
  eeprom :: medium
  total_access :: int
  cache_hits :: int
  eeprom_hits :: int
  events :: "event list"

definition emit :: "event \<Rightarrow> state \<Rightarrow> state" where
  "emit e st = st\<lparr>events := events st @ [e]\<rparr>"

text \<open>The globals as the module initialises them, over the medium's contents at start.\<close>

definition init_state :: "medium \<Rightarrow> state" where
  "init_state mem =
     \<lparr>cache = [],
      write_pointers = [ADDR_TEMP \<mapsto> 0, ADDR_MQ2 \<mapsto> 0, ADDR_MQ7 \<mapsto> 0],
      eeprom_ttl = Map.empty,
      eeprom = mem,
      total_access = 0, cache_hits = 0, eeprom_hits = 0,
      events = []\<rparr>"

section \<open>mian.py: the producer\<close>

text \<open>
  What the drivers deliver during one call of \<open>read_sensor\<close>. \<open>read_temperature\<close> calls
  \<open>ds_sensor.read_temp\<close> twice: first in the condition of the conditional expression, then
  for the value it returns (a DS18B20 is taken to have been found at start, so
  \<open>ds_roms[0]\<close> exists). The floating-point arithmetic of \<open>calculate_ppm\<close> is not
  modelled: its result for each gas sensor is an input.
\<close>

record sensors =
  temp_checked :: pyfloat
  temp_returned :: pyfloat
  mq2_ppm :: "pyfloat option"
  mq7_ppm :: "pyfloat option"

definition read_temperature :: "sensors \<Rightarrow> pyfloat option" where
  "read_temperature env =
     (if float_gt_zero (temp_checked env) then Some (temp_returned env) else None)"

definition read_sensor :: "sensors \<Rightarrow> int \<Rightarrow> pyfloat option" where
  "read_sensor env addr =
     (if addr = ADDR_TEMP then read_temperature env
      else if addr = ADDR_MQ2 then mq2_ppm env
      else if addr = ADDR_MQ7 then mq7_ppm env
      else None)"

section \<open>mian.py: the durable store\<close>

text \<open>
  The \<open>for .. else\<close> of \<open>eeprom_write\<close> over \<open>enumerate(EEPROM_SLOTS[addr])\<close>: \<open>None\<close> when
  the loop ends without \<open>break\<close> (the \<open>else\<close> branch runs next), otherwise the state at
  the \<open>break\<close> or the exception raised in the body.
\<close>

fun expired_slots_loop ::
  "int \<Rightarrow> int \<Rightarrow> pyfloat option \<Rightarrow> (nat \<times> int) list \<Rightarrow> state \<Rightarrow> (error + state) option" where
  "expired_slots_loop current_time addr data [] st = None"
| "expired_slots_loop current_time addr data ((i, page) # rest) st =
     (if (case eeprom_ttl st addr of
            None \<Rightarrow> False
          | Some entry \<Rightarrow> ticks_diff current_time (timestamp entry) > TTL_MS)
      then (case write_to_eeprom page (int i) data (eeprom st) of
              Inl e \<Rightarrow> Some (Inl e)
            | Inr (mem', _) \<Rightarrow>
                Some (Inr (st\<lparr>eeprom := mem',
                               write_pointers := (write_pointers st)(addr \<mapsto> (int i + 1) mod 4)\<rparr>)))
      else expired_slots_loop current_time addr data rest st)"

text \<open>
  \<open>eeprom_write\<close>: the exceptions of the body leave through the \<open>with\<close> block, which
  releases the lock; the shadow record is updated only when no exception was raised.
\<close>

definition eeprom_write :: "int \<Rightarrow> int \<Rightarrow> pyfloat option \<Rightarrow> state \<Rightarrow> error option \<times> state" where
  "eeprom_write current_time addr data st0 =
     (let st = emit (Access StoreData) (emit (Acquire eeprom_lock) st0);
          r = (case EEPROM_SLOTS addr of
                 None \<Rightarrow> Inl KeyError
               | Some slots \<Rightarrow>
                   (case expired_slots_loop current_time addr data (enumerate 0 slots) st of
                      Some r \<Rightarrow> r
                    | None \<Rightarrow>
                        (case write_pointers st addr of
                           None \<Rightarrow> Inl KeyError
                         | Some ptr \<Rightarrow>
                             (case py_index slots ptr of
                                Inl e \<Rightarrow> Inl e
                              | Inr page \<Rightarrow>
                                  (case write_to_eeprom page ptr data (eeprom st) of
                                     Inl e \<Rightarrow> Inl e
                                   | Inr (mem', _) \<Rightarrow>
                                       Inr (st\<lparr>eeprom := mem',
                                              write_pointers :=
                                                (write_pointers st)(addr \<mapsto> (ptr + 1) mod 4)\<rparr>))))))
      in case r of
           Inl e \<Rightarrow> (Some e, emit (Release eeprom_lock) st)
         | Inr st' \<Rightarrow>
             (None,
              emit (Release eeprom_lock)
                (st'\<lparr>eeprom_ttl :=
                       (eeprom_ttl st')(addr \<mapsto> \<lparr>timestamp = current_time, ttl_value = data\<rparr>)\<rparr>)))"

definition eeprom_read ::
  "int \<Rightarrow> bool \<Rightarrow> int \<Rightarrow> state \<Rightarrow> (error + pyfloat option) \<times> state" where
  "eeprom_read now bus_ok addr st0 =
     (case NAME_MAP addr of
        None \<Rightarrow> (Inr None, st0)
      | Some name \<Rightarrow>
          (let st = emit (Access StoreData) (emit (Acquire eeprom_lock) st0);
               st' = emit (Release eeprom_lock) st
           in case (case eeprom_ttl st addr of
                      None \<Rightarrow> None
                    | Some entry \<Rightarrow>
                        if ticks_diff now (timestamp entry) < TTL_MS then Some (ttl_value entry)
                        else None) of
                Some v \<Rightarrow> (Inr v, st')
              | None \<Rightarrow>
                  (case write_pointers st addr of
                     None \<Rightarrow> (Inl KeyError, st')
                   | Some wp \<Rightarrow>
                       (let ptr = (wp - 1) mod 4
                        in (Inr (read_last_value bus_ok (eeprom st) name ptr), st')))))"

section \<open>mian.py: the cache\<close>

text \<open>
  \<open>min(cache.items(), key=lambda x: x[1]['last_used'])\<close>: the first pair, in iteration
  order, whose \<open>last_used\<close> is not above any other; the timestamps are compared as plain
  integers.
\<close>

fun min_last_used :: "int \<times> cache_entry \<Rightarrow> (int \<times> cache_entry) list \<Rightarrow> int \<times> cache_entry" where
  "min_last_used best [] = best"
| "min_last_used best (kv # kvs) =
     min_last_used (if last_used (snd kv) < last_used (snd best) then kv else best) kvs"

text \<open>
  \<open>update_cache\<close>. \<open>min\<close> of an empty dict would raise; with \<open>CACHE_SIZE = 2\<close> the test
  \<open>len(cache) >= CACHE_SIZE\<close> excludes the empty dict, so that case is not reached.
\<close>

definition update_cache :: "int \<Rightarrow> int \<Rightarrow> pyfloat option \<Rightarrow> state \<Rightarrow> state" where
  "update_cache now addr v st0 =
     (let st = emit (Access CacheData) st0;
          c = cache st;
          c' = (if int (length c) \<ge> CACHE_SIZE
                then (case c of
                        [] \<Rightarrow> c
                      | kv # kvs \<Rightarrow> (let oldest = fst (min_last_used kv kvs) in dict_del c oldest))
                else c)
      in st\<lparr>cache := dict_set c' addr \<lparr>entry_value = v, last_used = now\<rparr>\<rparr>)"

definition check_ttl :: "int \<Rightarrow> int \<Rightarrow> state \<Rightarrow> state" where
  "check_ttl now addr st0 =
     (let st = emit (Access CacheData) st0
      in case dict_get (cache st) addr of
           None \<Rightarrow> st
         | Some entry \<Rightarrow>
             if ticks_diff now (last_used entry) > TTL_MS
             then st\<lparr>cache := dict_del (cache st) addr\<rparr>
             else st)"

section \<open>mian.py: the foreground request\<close>

text \<open>
  The clock readings of one call, in the order the code takes them: in \<open>check_ttl\<close>, on a
  cache hit, in \<open>eeprom_read\<close>, for the \<open>timestamp\<close> of the sensor path, in
  \<open>eeprom_write\<close>, and in \<open>update_cache\<close>.
\<close>

record clock =
  t_check :: int
  t_hit :: int
  t_read :: int
  t_stamp :: int
  t_write :: int
  t_put :: int

type_synonym reply = "pyfloat option \<times> string \<times> int"

text \<open>
  \<open>request_data\<close> up to the store lookup: the counter, \<open>check_ttl\<close> outside any lock, the
  cache test under \<open>cache_lock\<close>, then \<open>eeprom_read\<close>. The result is \<open>None\<close> when neither
  tier answers and the function goes on to the sensor; otherwise what the function
  returns or raises. \<open>eeprom_ttl[addr]["timestamp"]\<close> of the store hit is read outside
  any lock and raises \<open>KeyError\<close> when the channel has no shadow record.
\<close>

definition request_lookup ::
  "clock \<Rightarrow> bool \<Rightarrow> int \<Rightarrow> state \<Rightarrow> (error + reply) option \<times> state" where
  "request_lookup clk bus_ok addr st0 =
     (let st1 = check_ttl (t_check clk) addr (st0\<lparr>total_access := total_access st0 + 1\<rparr>);
          st2 = emit (Access CacheData) (emit (Acquire cache_lock) st1)
      in case dict_get (cache st2) addr of
           Some entry \<Rightarrow>
             (let entry' = entry\<lparr>last_used := t_hit clk\<rparr>;
                  st3 = st2\<lparr>cache := dict_set (cache st2) addr entry',
                            cache_hits := cache_hits st2 + 1\<rparr>
              in (Some (Inr (entry_value entry', ''Cache'', last_used entry')),
                  emit (Release cache_lock) st3))
         | None \<Rightarrow>
             (case eeprom_read (t_read clk) bus_ok addr (emit (Release cache_lock) st2) of
                (Inl e, st3) \<Rightarrow> (Some (Inl e), st3)
              | (Inr val, st3) \<Rightarrow>
                  if val \<noteq> None \<and> \<not> (case val of None \<Rightarrow> False | Some w \<Rightarrow> isnan w)
                  then (let st4 = emit (Release cache_lock)
                                    (update_cache (t_put clk) addr val
                                       (emit (Acquire cache_lock) st3));
                            st5 = st4\<lparr>eeprom_hits := eeprom_hits st4 + 1\<rparr>;
                            st6 = emit (Access StoreData) st5
                        in case eeprom_ttl st6 addr of
                             None \<Rightarrow> (Some (Inl KeyError), st6)
                           | Some entry \<Rightarrow> (Some (Inr (val, ''EEPROM'', timestamp entry)), st6))
                  else (None, st3)))"

text \<open>The rest of \<open>request_data\<close>: the sensor, the write to the store, the cache.\<close>

definition request_produce :: "clock \<Rightarrow> sensors \<Rightarrow> int \<Rightarrow> state \<Rightarrow> (error + reply) \<times> state" where
  "request_produce clk env addr st =
     (let val = read_sensor env addr;
          timestamp = t_stamp clk
      in case eeprom_write (t_write clk) addr val st of
           (Some e, st1) \<Rightarrow> (Inl e, st1)
         | (None, st1) \<Rightarrow>
             (Inr (val, ''Sensor'', timestamp),
              emit (Release cache_lock)
                (update_cache (t_put clk) addr val (emit (Acquire cache_lock) st1))))"

definition request_data ::
  "clock \<Rightarrow> bool \<Rightarrow> sensors \<Rightarrow> int \<Rightarrow> state \<Rightarrow> (error + reply) \<times> state" where
  "request_data clk bus_ok env addr st =
     (case request_lookup clk bus_ok addr st of
        (Some r, st') \<Rightarrow> (r, st')
      | (None, st') \<Rightarrow> request_produce clk env addr st')"

section \<open>mian.py: the background thread\<close>

text \<open>
  The body of the inner \<open>for\<close> of \<open>sensor_loop\<close> for one address, and one sweep over a
  list of addresses (\<open>ADDR_LIST\<close> in the source), each address with its own sensor and
  clock readings. An exception ends the thread.
\<close>

definition sensor_loop_body :: "clock \<Rightarrow> sensors \<Rightarrow> int \<Rightarrow> state \<Rightarrow> error option \<times> state" where
  "sensor_loop_body clk env addr st =
     (let val = read_sensor env addr
      in if val \<noteq> None
         then (case eeprom_write (t_write clk) addr val st of
                 (Some e, st1) \<Rightarrow> (Some e, st1)
               | (None, st1) \<Rightarrow> (None, update_cache (t_put clk) addr val st1))
         else (None, st))"

fun sensor_loop_sweep :: "(clock \<times> sensors \<times> int) list \<Rightarrow> state \<Rightarrow> error option \<times> state" where
  "sensor_loop_sweep [] st = (None, st)"
| "sensor_loop_sweep ((clk, env, addr) # rest) st =
     (case sensor_loop_body clk env addr st of
        (Some e, st1) \<Rightarrow> (Some e, st1)
      | (None, st1) \<Rightarrow> sensor_loop_sweep rest st1)"

section \<open>mian.py: hit rates\<close>

text \<open>
  The rates of the main loop, in percent; \<open>/\<close> is Python's true division, taken exactly,
  and raises when \<open>total_access\<close> is zero.
\<close>

definition hit_rate :: "state \<Rightarrow> error + real" where
  "hit_rate st =
     (if total_access st = 0 then Inl ZeroDivisionError
      else Inr (real_of_int (cache_hits st + eeprom_hits st) / real_of_int (total_access st) * 100))"

definition cache_hits_rate :: "state \<Rightarrow> error + real" where
  "cache_hits_rate st =
     (if total_access st = 0 then Inl ZeroDivisionError
      else Inr (real_of_int (cache_hits st) / real_of_int (total_access st) * 100))"

definition eeprom_hits_rate :: "state \<Rightarrow> error + real" where
  "eeprom_hits_rate st =
     (if total_access st = 0 then Inl ZeroDivisionError
      else Inr (real_of_int (eeprom_hits st) / real_of_int (total_access st) * 100))"

section \<open>Scripted runs and lock discipline\<close>

text \<open>
  A script is a sequence of calls, each with the readings it receives: a foreground
  \<open>request_data\<close> or one background \<open>sensor_loop\<close> body. The run keeps what every
  foreground request returned or raised.
\<close>

datatype call = Request clock bool sensors int | Refresh clock sensors int

fun run :: "call list \<Rightarrow> state \<Rightarrow> (error + reply) list \<times> state" where
  "run [] st = ([], st)"
| "run (Request clk bus_ok env addr # cs) st =
     (case request_data clk bus_ok env addr st of
        (r, st1) \<Rightarrow> (case run cs st1 of (rs, st2) \<Rightarrow> (r # rs, st2)))"
| "run (Refresh clk env addr # cs) st = run cs (snd (sensor_loop_body clk env addr st))"

fun is_request :: "call \<Rightarrow> bool" where
  "is_request (Request clk bus_ok env addr) = True"
| "is_request (Refresh clk env addr) = False"

text \<open>The replies of a run that came from a given tier.\<close>

fun served_by :: "string \<Rightarrow> error + reply \<Rightarrow> bool" where
  "served_by src (Inl e) = False"
| "served_by src (Inr (v, level, t)) = (level = src)"

text \<open>
  A trace keeps the lock discipline when every access to the cache happens with
  \<open>cache_lock\<close> held and every access to the store with \<open>eeprom_lock\<close> held.
\<close>

fun guard_of :: "shared \<Rightarrow> lock" where
  "guard_of CacheData = cache_lock"
| "guard_of StoreData = eeprom_lock"

fun disciplined :: "lock list \<Rightarrow> event list \<Rightarrow> bool" where
  "disciplined held [] = True"
| "disciplined held (Acquire l # es) = disciplined (l # held) es"
| "disciplined held (Release l # es) = disciplined (removeAll l held) es"
| "disciplined held (Access x # es) = (guard_of x \<in> set held \<and> disciplined held es)"

text \<open>
  The state invariant of the module: the cache's keys are distinct, and every configured
  channel has a write pointer in \<open>0..3\<close>.
\<close>

definition wf_state :: "state \<Rightarrow> bool" where
  "wf_state st =
     (distinct (map fst (cache st)) \<and>
      list_all (\<lambda>a. case write_pointers st a of None \<Rightarrow> False | Some p \<Rightarrow> 0 \<le> p \<and> p < 4)
        ADDR_LIST)"

text \<open>A sequence of \<open>update_cache\<close> calls, each with its clock reading, address and value.\<close>

fun update_cache_seq :: "(int \<times> int \<times> pyfloat option) list \<Rightarrow> state \<Rightarrow> state" where
  "update_cache_seq [] st = st"
| "update_cache_seq ((now, addr, v) # ps) st = update_cache_seq ps (update_cache now addr v st)"

text \<open>
  The test of \<open>eeprom_write\<close> for an expired shadow record: the channel has a record and
  more than \<open>TTL_MS\<close> ticks have passed since its timestamp.
\<close>

definition shadow_stale :: "int \<Rightarrow> int \<Rightarrow> state \<Rightarrow> bool" where
  "shadow_stale now addr st =
     (case eeprom_ttl st addr of
        None \<Rightarrow> False
      | Some entry \<Rightarrow> ticks_diff now (timestamp entry) > TTL_MS)"

text \<open>Concrete inputs: an erased medium, clock readings, and sensor readings.\<close>

definition erased_medium :: medium where
  "erased_medium = (\<lambda>a. 0xFF)"

definition sample_clock :: clock where
  "sample_clock =
     \<lparr>t_check = 100, t_hit = 101, t_read = 102, t_stamp = 103, t_write = 104, t_put = 105\<rparr>"

definition sample_sensors :: sensors where
  "sample_sensors =
     \<lparr>temp_checked = 0x41C80000, temp_returned = 0x41C80000,
      mq2_ppm = Some 0x3F800000, mq7_ppm = None\<rparr>"


text \<open>Clock readings of a later call, within \<open>TTL_MS\<close> of the sample ones.\<close>

definition later_clock :: clock where
  "later_clock =
     \<lparr>t_check = 200, t_hit = 201, t_read = 202, t_stamp = 203, t_write = 204, t_put = 205\<rparr>"

text \<open>A state whose cache is full: the temperature entry is younger than the gas entry.\<close>

definition full_cache_state :: state where
  "full_cache_state =
     (init_state erased_medium)
       \<lparr>cache := [(ADDR_TEMP, \<lparr>entry_value = Some 0x41C80000, last_used = 5\<rparr>),
                  (ADDR_MQ2, \<lparr>entry_value = Some 0x3F800000, last_used = 3\<rparr>)]\<rparr>"

text \<open>Sensor readings in which every driver delivers exactly zero.\<close>

definition freezing_sensors :: sensors where
  "freezing_sensors =
     \<lparr>temp_checked = 0, temp_returned = 0, mq2_ppm = Some 0, mq7_ppm = Some 0\<rparr>"

text \<open>
  The number of foreground requests of a script, and the number of replies of a run that
  came from a given tier.
\<close>

definition requests_made :: "call list \<Rightarrow> nat" where
  "requests_made cs = length (filter is_request cs)"

definition served_count :: "string \<Rightarrow> (error + reply) list \<Rightarrow> nat" where
  "served_count src rs = length (filter (served_by src) rs)"

text \<open>
  A script of three requests and two background refreshes: the first request is answered
  by the sensor, the second by the store (the refreshes have evicted the channel from the
  cache), the third by the cache.
\<close>

definition sample_script :: "call list" where
  "sample_script =
     [Request sample_clock True sample_sensors ADDR_TEMP,
      Refresh later_clock freezing_sensors ADDR_MQ2,
      Refresh later_clock freezing_sensors ADDR_MQ7,
      Request later_clock True sample_sensors ADDR_TEMP,
      Request later_clock True sample_sensors ADDR_MQ7]"

text \<open>
  The gas channel \<open>ADDR_MQ2\<close> written twice on an erased medium, 1.0 at tick 104 and 2.0
  at tick 204: the second write goes to slot 1.
\<close>

definition twice_written_state :: state where
  "twice_written_state =
     snd (eeprom_write 204 ADDR_MQ2 (Some 0x40000000)
            (snd (eeprom_write 104 ADDR_MQ2 (Some 0x3F800000) (init_state erased_medium))))"

text \<open>
  A medium that holds the float 1.0 in bytes 4 to 7, where \<open>save_data\<close> of lib/EEPROM.py
  stores the second record of the gas sensor; and the same two writes on it, the second
  one of the value 0.0.
\<close>

definition recorded_medium :: medium where
  "recorded_medium = erased_medium(4 := 0x00, 5 := 0x00, 6 := 0x80, 7 := 0x3F)"

definition zero_written_state :: state where
  "zero_written_state =
     snd (eeprom_write 204 ADDR_MQ2 (Some 0)
            (snd (eeprom_write 104 ADDR_MQ2 (Some 0x40000000) (init_state recorded_medium))))"


text \<open>
  A medium that holds the float 1.0 in bytes 12 to 15, where \<open>save_data\<close> of lib/EEPROM.py
  stores the fourth record of the gas sensor; and two requests for the gas channel, the
  first of which finds that record.
\<close>

definition fourth_record_medium :: medium where
  "fourth_record_medium = erased_medium(12 := 0x00, 13 := 0x00, 14 := 0x80, 15 := 0x3F)"

definition raising_script :: "call list" where
  "raising_script =
     [Request sample_clock True sample_sensors ADDR_MQ2,
      Request later_clock True sample_sensors ADDR_MQ2]"

section \<open>Facts about the containers and the cache\<close>

lemma dict_get_set: "dict_get (dict_set c k v) k' = (if k' = k then Some v else dict_get c k')"
  by (induction c k v rule: dict_set.induct) auto

lemma dict_get_del_other: "k' \<noteq> k \<Longrightarrow> dict_get (dict_del c k) k' = dict_get c k'"
  by (induction c k rule: dict_del.induct) auto

lemma dict_get_None_iff: "dict_get c k = None \<longleftrightarrow> k \<notin> fst ` set c"
  by (induction c k rule: dict_get.induct) auto

lemma keys_dict_set: "fst ` set (dict_set c k v) = insert k (fst ` set c)"
  by (induction c k v rule: dict_set.induct) auto

lemma keys_dict_del_subset: "fst ` set (dict_del c k) \<subseteq> fst ` set c"
  by (induction c k rule: dict_del.induct) auto

lemma distinct_dict_set: "distinct (map fst c) \<Longrightarrow> distinct (map fst (dict_set c k v))"
  by (induction c k v rule: dict_set.induct) (auto simp: keys_dict_set)

lemma distinct_dict_del: "distinct (map fst c) \<Longrightarrow> distinct (map fst (dict_del c k))"
proof (induction c)
  case Nil
  then show ?case by simp
next
  case (Cons a c)
  obtain k' v' where a: "a = (k', v')" by (cases a) auto
  from Cons.prems have d: "distinct (map fst c)" and n: "k' \<notin> fst ` set c"
    by (simp_all add: a)
  have "k' \<notin> fst ` set (dict_del c k)"
    using n keys_dict_del_subset [of c k] by blast
  then show ?case using Cons.IH [OF d] d by (simp add: a)
qed

lemma dict_get_del_same: "distinct (map fst c) \<Longrightarrow> dict_get (dict_del c k) k = None"
proof (induction c)
  case Nil
  then show ?case by simp
next
  case (Cons a c)
  obtain k' v' where a: "a = (k', v')" by (cases a) auto
  from Cons.prems have d: "distinct (map fst c)" and n: "k' \<notin> fst ` set c"
    by (simp_all add: a)
  show ?case
  proof (cases "k' = k")
    case True
    then show ?thesis using n by (simp add: a dict_get_None_iff)
  next
    case False
    then show ?thesis using Cons.IH [OF d] by (simp add: a)
  qed
qed

lemma length_dict_set:
  "length (dict_set c k v) = (if k \<in> fst ` set c then length c else Suc (length c))"
  by (induction c k v rule: dict_set.induct) auto

lemma length_dict_del_mem: "k \<in> fst ` set c \<Longrightarrow> Suc (length (dict_del c k)) = length c"
  by (induction c k rule: dict_del.induct) auto

lemma min_last_used_mem: "min_last_used best kvs \<in> set (best # kvs)"
  by (induction kvs arbitrary: best) auto

lemma min_last_used_le_best: "last_used (snd (min_last_used best kvs)) \<le> last_used (snd best)"
proof (induction kvs arbitrary: best)
  case Nil
  then show ?case by simp
next
  case (Cons kv kvs)
  show ?case using Cons [of "if last_used (snd kv) < last_used (snd best) then kv else best"]
    by (auto split: if_splits)
qed

lemma min_last_used_least:
  "x \<in> set (best # kvs) \<Longrightarrow> last_used (snd (min_last_used best kvs)) \<le> last_used (snd x)"
proof (induction kvs arbitrary: best)
  case Nil
  then show ?case by simp
next
  case (Cons kv kvs)
  let ?b = "if last_used (snd kv) < last_used (snd best) then kv else best"
  have le: "last_used (snd (min_last_used ?b kvs)) \<le> last_used (snd ?b)"
    by (rule min_last_used_le_best)
  from Cons.prems consider "x = best" | "x = kv" | "x \<in> set kvs" by auto
  then show ?case
  proof cases
    case 1
    with le show ?thesis by (auto split: if_splits)
  next
    case 2
    with le show ?thesis by (auto split: if_splits)
  next
    case 3
    then have "x \<in> set (?b # kvs)" by simp
    from Cons.IH [OF this] show ?thesis by simp
  qed
qed

lemma cache_update_cache:
  "cache (update_cache now addr v st) =
     dict_set (if int (length (cache st)) \<ge> CACHE_SIZE
               then (case cache st of [] \<Rightarrow> [] | kv # kvs \<Rightarrow> dict_del (cache st) (fst (min_last_used kv kvs)))
               else cache st) addr \<lparr>entry_value = v, last_used = now\<rparr>"
  by (simp add: update_cache_def emit_def Let_def split: list.splits)

lemma update_cache_capacity:
  assumes "int (length (cache st)) \<le> CACHE_SIZE"
  shows "int (length (cache (update_cache now addr v st))) \<le> CACHE_SIZE"
proof (cases "cache st")
  case Nil
  then show ?thesis by (simp add: cache_update_cache CACHE_SIZE_def)
next
  case (Cons kv kvs)
  have mem: "fst (min_last_used kv kvs) \<in> fst ` set (cache st)"
    using min_last_used_mem [of kv kvs] Cons by (metis imageI)
  show ?thesis
  proof (cases "int (length (cache st)) \<ge> CACHE_SIZE")
    case True
    have "Suc (length (dict_del (cache st) (fst (min_last_used kv kvs)))) = length (cache st)"
      using mem by (rule length_dict_del_mem)
    then show ?thesis using assms True Cons
      by (simp add: cache_update_cache length_dict_set CACHE_SIZE_def)
  next
    case False
    then show ?thesis using assms
      by (simp add: cache_update_cache length_dict_set CACHE_SIZE_def)
  qed
qed

lemma update_cache_distinct:
  assumes "distinct (map fst (cache st))"
  shows "distinct (map fst (cache (update_cache now addr v st)))"
proof -
  have "distinct (map fst (case cache st of [] \<Rightarrow> []
          | kv # kvs \<Rightarrow> dict_del (cache st) (fst (min_last_used kv kvs))))"
    using assms distinct_dict_del [of "cache st"] by (cases "cache st") simp_all
  then show ?thesis using assms
    by (simp add: cache_update_cache distinct_dict_set)
qed

section \<open>Facts about the store and the request\<close>

lemma emit_fields [simp]:
  "cache (emit e st) = cache st"
  "write_pointers (emit e st) = write_pointers st"
  "eeprom_ttl (emit e st) = eeprom_ttl st"
  "eeprom (emit e st) = eeprom st"
  "total_access (emit e st) = total_access st"
  "cache_hits (emit e st) = cache_hits st"
  "eeprom_hits (emit e st) = eeprom_hits st"
  "events (emit e st) = events st @ [e]"
  by (simp_all add: emit_def)

lemma shadow_stale_emit [simp]: "shadow_stale now addr (emit e st) = shadow_stale now addr st"
  by (simp add: shadow_stale_def)

lemma update_cache_fields [simp]:
  "write_pointers (update_cache now addr v st) = write_pointers st"
  "eeprom_ttl (update_cache now addr v st) = eeprom_ttl st"
  "eeprom (update_cache now addr v st) = eeprom st"
  "total_access (update_cache now addr v st) = total_access st"
  "cache_hits (update_cache now addr v st) = cache_hits st"
  "eeprom_hits (update_cache now addr v st) = eeprom_hits st"
  "events (update_cache now addr v st) = events st @ [Access CacheData]"
  by (simp_all add: update_cache_def Let_def)

lemma check_ttl_fields [simp]:
  "write_pointers (check_ttl now addr st) = write_pointers st"
  "eeprom_ttl (check_ttl now addr st) = eeprom_ttl st"
  "eeprom (check_ttl now addr st) = eeprom st"
  "total_access (check_ttl now addr st) = total_access st"
  "cache_hits (check_ttl now addr st) = cache_hits st"
  "eeprom_hits (check_ttl now addr st) = eeprom_hits st"
  "events (check_ttl now addr st) = events st @ [Access CacheData]"
  by (simp_all add: check_ttl_def Let_def split: option.splits)

lemma eeprom_read_fields [simp]:
  "cache (snd (eeprom_read now ok addr st)) = cache st"
  "write_pointers (snd (eeprom_read now ok addr st)) = write_pointers st"
  "eeprom_ttl (snd (eeprom_read now ok addr st)) = eeprom_ttl st"
  "eeprom (snd (eeprom_read now ok addr st)) = eeprom st"
  "total_access (snd (eeprom_read now ok addr st)) = total_access st"
  "cache_hits (snd (eeprom_read now ok addr st)) = cache_hits st"
  "eeprom_hits (snd (eeprom_read now ok addr st)) = eeprom_hits st"
  by (simp_all add: eeprom_read_def Let_def split: option.splits)

lemma expired_slots_loop_fresh:
  "\<not> shadow_stale now addr st \<Longrightarrow> expired_slots_loop now addr data ps st = None"
  by (induction ps) (auto simp: shadow_stale_def split: option.splits)

lemma expired_slots_loop_stale:
  "shadow_stale now addr st \<Longrightarrow>
   expired_slots_loop now addr data ((i, page) # rest) st =
     (case write_to_eeprom page (int i) data (eeprom st) of
        Inl e \<Rightarrow> Some (Inl e)
      | Inr (mem', _) \<Rightarrow>
          Some (Inr (st\<lparr>eeprom := mem',
                         write_pointers := (write_pointers st)(addr \<mapsto> (int i + 1) mod 4)\<rparr>)))"
  by (auto simp: shadow_stale_def split: option.splits)

lemma write_to_eeprom_None [simp]: "write_to_eeprom page offset None mem = Inl TypeError"
  by (simp add: write_to_eeprom_def struct_pack_def)

lemma EEPROM_SLOTS_cases:
  "addr \<in> set ADDR_LIST \<Longrightarrow>
   \<exists>base. EEPROM_SLOTS addr = Some [base, base + 1, base + 2, base + 3] \<and> base \<in> {0, 42, 84}"
  by (auto simp: ADDR_LIST_def EEPROM_SLOTS_def ADDR_TEMP_def ADDR_MQ2_def ADDR_MQ7_def)

lemma wf_stateD:
  "wf_state st \<Longrightarrow> addr \<in> set ADDR_LIST \<Longrightarrow>
   \<exists>p. write_pointers st addr = Some p \<and> 0 \<le> p \<and> p < 4"
  by (auto simp: wf_state_def list_all_iff split: option.splits)

lemma and_255_int: "(a::int) AND 0xFF = a mod 256"
proof -
  have "(0xFF::int) = mask 8" by (simp add: mask_eq_exp_minus_1)
  then have "a AND 0xFF = take_bit 8 a" by (simp only: take_bit_eq_mask)
  then show ?thesis by (simp add: take_bit_eq_mod)
qed

lemma word_address_mod: "word_address a = a mod 65536"
proof -
  have "word_address a = (a div 256) mod 256 * 256 + a mod 256"
    by (simp add: word_address_def Let_def and_255_int drop_bit_eq_div)
  also have "\<dots> = a mod (256 * 256)"
    using zmod_zmult2_eq [of 256 a 256] by simp
  finally show ?thesis by simp
qed

lemma word_address_id: "0 \<le> a \<Longrightarrow> a < 65536 \<Longrightarrow> word_address a = a"
  by (simp add: word_address_mod)

lemma struct_pack_Some: "struct_pack (Some w) = Inr (float_bytes w)"
  by (simp add: struct_pack_def float_bytes_def)

lemma py_index_slots:
  "0 \<le> p \<Longrightarrow> p < 4 \<Longrightarrow> py_index [base, base + 1, base + 2, base + 3] p = Inr (base + p)"
proof -
  assume "0 \<le> p" "p < 4"
  then consider "p = 0" | "p = 1" | "p = 2" | "p = 3" by linarith
  then show ?thesis by cases (simp_all add: py_index_def)
qed

lemma eeprom_write_Some:
  assumes slots: "EEPROM_SLOTS addr = Some [base, base + 1, base + 2, base + 3]"
    and p: "write_pointers st addr = Some p" "0 \<le> p" "p < 4"
  shows "eeprom_write now addr (Some v) st =
    (None,
     emit (Release eeprom_lock)
       ((emit (Access StoreData) (emit (Acquire eeprom_lock) st))
          \<lparr>eeprom := eeprom_write_bytes
                       ((base + (if shadow_stale now addr st then 0 else p)) * PAGE_SIZE +
                        (if shadow_stale now addr st then 0 else p))
                       (float_bytes v) (eeprom st),
            write_pointers :=
              (write_pointers st)(addr \<mapsto> ((if shadow_stale now addr st then 0 else p) + 1) mod 4),
            eeprom_ttl := (eeprom_ttl st)(addr \<mapsto> \<lparr>timestamp = now, ttl_value = Some v\<rparr>)\<rparr>))"
proof -
  let ?st = "emit (Access StoreData) (emit (Acquire eeprom_lock) st)"
  show ?thesis
  proof (cases "shadow_stale now addr st")
    case True
    then have "shadow_stale now addr ?st" by simp
    from expired_slots_loop_stale [OF this]
    show ?thesis using slots True
      by (simp add: eeprom_write_def Let_def enumerate_eq_zip write_to_eeprom_def struct_pack_Some)
  next
    case False
    then have "\<not> shadow_stale now addr ?st" by simp
    from expired_slots_loop_fresh [OF this]
    show ?thesis using slots p False py_index_slots [OF p(2,3), of base]
      by (simp add: eeprom_write_def Let_def write_to_eeprom_def struct_pack_Some shadow_stale_def)
  qed
qed

lemma eeprom_write_bytes_4:
  assumes "0 \<le> a" "a + 3 < 65536"
  shows "eeprom_write_bytes a [b0, b1, b2, b3] mem = mem(a := b0, a + 1 := b1, a + 2 := b2, a + 3 := b3)"
proof -
  have "word_address a = a" "word_address (a + 1) = a + 1"
    "word_address (a + 1 + 1) = a + 2" "word_address (a + 1 + 1 + 1) = a + 3"
    using assms by (simp_all add: word_address_id)
  then show ?thesis by simp
qed

lemma eeprom_read_result:
  assumes "eeprom_read now ok addr st = (r, st')"
  shows "cache st' = cache st" "write_pointers st' = write_pointers st"
    "eeprom_ttl st' = eeprom_ttl st" "eeprom st' = eeprom st"
    "total_access st' = total_access st" "cache_hits st' = cache_hits st"
    "eeprom_hits st' = eeprom_hits st"
proof -
  have "st' = snd (eeprom_read now ok addr st)" using assms by simp
  then show "cache st' = cache st" "write_pointers st' = write_pointers st"
    "eeprom_ttl st' = eeprom_ttl st" "eeprom st' = eeprom st"
    "total_access st' = total_access st" "cache_hits st' = cache_hits st"
    "eeprom_hits st' = eeprom_hits st"
    by simp_all
qed

lemma request_lookup_store:
  assumes "request_lookup clk ok addr st = (r, st1)"
  shows "write_pointers st1 = write_pointers st" "eeprom st1 = eeprom st"
    "eeprom_ttl st1 = eeprom_ttl st"
  using assms
  by (auto simp: request_lookup_def Let_def dest: eeprom_read_result
      split: option.splits prod.splits sum.splits if_splits)

lemma wf_state_pointers:
  "wf_state st \<Longrightarrow> write_pointers st' = write_pointers st \<Longrightarrow>
   distinct (map fst (cache st')) \<Longrightarrow> wf_state st'"
  by (simp add: wf_state_def)

lemma expired_slots_loop_ok:
  "expired_slots_loop now addr data ps st = Some (Inr st2) \<Longrightarrow>
   cache st2 = cache st \<and> eeprom_ttl st2 = eeprom_ttl st \<and> total_access st2 = total_access st \<and>
   cache_hits st2 = cache_hits st \<and> eeprom_hits st2 = eeprom_hits st \<and> events st2 = events st"
  by (induction ps) (auto split: if_splits sum.splits)





lemma cache_get_after_update:
  "dict_get (cache (update_cache now addr v st)) addr = Some \<lparr>entry_value = v, last_used = now\<rparr>"
  by (simp add: cache_update_cache dict_get_set)


lemma dict_get_mem: "dict_get c k = Some e \<Longrightarrow> (k, e) \<in> set c"
  by (induction c k rule: dict_get.induct) (auto split: if_splits)

lemma mem_dict_get: "distinct (map fst c) \<Longrightarrow> (k, e) \<in> set c \<Longrightarrow> dict_get c k = Some e"
  by (induction c k rule: dict_get.induct) (auto simp: rev_image_eqI)

lemma eeprom_write_counters [simp]:
  "total_access (snd (eeprom_write now addr data st)) = total_access st"
  "cache_hits (snd (eeprom_write now addr data st)) = cache_hits st"
  "eeprom_hits (snd (eeprom_write now addr data st)) = eeprom_hits st"
  by (auto simp: eeprom_write_def Let_def dest!: expired_slots_loop_ok
      split: option.splits sum.splits prod.splits)

lemma eeprom_write_result_counters:
  assumes "eeprom_write now addr data st = (r, st')"
  shows "total_access st' = total_access st" "cache_hits st' = cache_hits st"
    "eeprom_hits st' = eeprom_hits st"
proof -
  have "st' = snd (eeprom_write now addr data st)" using assms by simp
  then show "total_access st' = total_access st" "cache_hits st' = cache_hits st"
    "eeprom_hits st' = eeprom_hits st"
    by simp_all
qed

lemma sensor_loop_body_counters [simp]:
  "total_access (snd (sensor_loop_body clk env addr st)) = total_access st"
  "cache_hits (snd (sensor_loop_body clk env addr st)) = cache_hits st"
  "eeprom_hits (snd (sensor_loop_body clk env addr st)) = eeprom_hits st"
  by (auto simp: sensor_loop_body_def Let_def dest: eeprom_write_result_counters
      split: option.splits prod.splits)

lemma request_lookup_counters:
  assumes "request_lookup clk ok addr st = (r, st')"
  shows "total_access st' = total_access st + 1"
    and "cache_hits st' = cache_hits st + (if r = None then 0 else if served_by ''Cache'' (the r) then 1 else 0)"
    and "r \<noteq> Some (Inl KeyError) \<Longrightarrow>
         eeprom_hits st' = eeprom_hits st + (if r = None then 0 else if served_by ''EEPROM'' (the r) then 1 else 0)"
  using assms
  by (auto simp: request_lookup_def Let_def dest: eeprom_read_result
      split: option.splits prod.splits sum.splits if_splits)

lemma request_data_counters:
  assumes "request_data clk ok env addr st = (r, st')"
  shows "total_access st' = total_access st + 1"
    and "cache_hits st' = cache_hits st + (if served_by ''Cache'' r then 1 else 0)"
    and "r \<noteq> Inl KeyError \<Longrightarrow>
         eeprom_hits st' = eeprom_hits st + (if served_by ''EEPROM'' r then 1 else 0)"
proof -
  obtain l st1 where l: "request_lookup clk ok addr st = (l, st1)"
    by (cases "request_lookup clk ok addr st")
  note c = request_lookup_counters [OF l]
  show "total_access st' = total_access st + 1"
    using assms l c(1)
    by (auto simp: request_data_def request_produce_def Let_def dest: eeprom_write_result_counters
        split: option.splits prod.splits)
  show "cache_hits st' = cache_hits st + (if served_by ''Cache'' r then 1 else 0)"
    using assms l c(2)
    by (auto simp: request_data_def request_produce_def Let_def dest: eeprom_write_result_counters
        split: option.splits prod.splits)
  show "eeprom_hits st' = eeprom_hits st + (if served_by ''EEPROM'' r then 1 else 0)"
    if "r \<noteq> Inl KeyError"
    using assms l c(3) that
    by (auto simp: request_data_def request_produce_def Let_def dest: eeprom_write_result_counters
        split: option.splits prod.splits)
qed

lemma run_counters:
  "run cs st = (rs, st') \<Longrightarrow>
   length rs = requests_made cs \<and>
   total_access st' = total_access st + int (requests_made cs) \<and>
   cache_hits st' = cache_hits st + int (served_count ''Cache'' rs) \<and>
   (Inl KeyError \<notin> set rs \<longrightarrow>
      eeprom_hits st' = eeprom_hits st + int (served_count ''EEPROM'' rs))"
proof (induction cs arbitrary: st rs st')
  case Nil
  then show ?case by (simp add: requests_made_def served_count_def)
next
  case (Cons c cs)
  show ?case
  proof (cases c)
    case (Request clk ok env addr)
    obtain r st1 where r: "request_data clk ok env addr st = (r, st1)"
      by (cases "request_data clk ok env addr st")
    obtain rs1 st2 where rs1: "run cs st1 = (rs1, st2)" by (cases "run cs st1")
    have eq: "rs = r # rs1" "st' = st2" using Cons.prems Request r rs1 by simp_all
    note ih = Cons.IH [OF rs1]
    note c = request_data_counters [OF r]
    show ?thesis using ih c eq Request
      by (auto simp add: requests_made_def served_count_def)
  next
    case (Refresh clk env addr)
    have "run cs (snd (sensor_loop_body clk env addr st)) = (rs, st')"
      using Cons.prems Refresh by simp
    from Cons.IH [OF this] show ?thesis using Refresh
      by (simp add: requests_made_def)
  qed
qed

text \<open>The definitions unfolded when the model is evaluated on concrete inputs.\<close>

lemmas config_defs =
  ADDR_LIST_def ADDR_TEMP_def ADDR_MQ2_def ADDR_MQ7_def NAME_MAP_def EEPROM_SLOTS_def
  CACHE_SIZE_def TTL_MS_def PAGE_SIZE_def TICKS_PERIOD_def

lemmas model_defs =
  request_data_def request_lookup_def request_produce_def sensor_loop_body_def
  check_ttl_def update_cache_def eeprom_read_def eeprom_write_def
  read_last_value_def i2c_readfrom4_def word_address_def write_to_eeprom_def
  struct_pack_def struct_unpack_def float_bytes_def py_index_def
  read_sensor_def read_temperature_def float_gt_zero_def isnan_def
  ticks_diff_def shadow_stale_def wf_state_def init_state_def emit_def
  erased_medium_def sample_clock_def sample_sensors_def enumerate_eq_zip Let_def

lemma sample_script_replies:
  "fst (run sample_script (init_state erased_medium)) =
     [Inr (Some 0x41C80000, ''Sensor'', 103), Inr (Some 0x41C80000, ''EEPROM'', 104),
      Inr (Some 0, ''Cache'', 201)]"
  by (simp add: sample_script_def model_defs config_defs later_clock_def freezing_sensors_def)

text \<open>
  A write of 0.0 that lands in slot 0 is read back as \<open>None\<close> once the shadow record is no
  longer fresh: there the read goes to the bytes just written, and four zero bytes are a
  sentinel.
\<close>

lemma i2c_readfrom4_written:
  assumes "0 \<le> a" "a + 3 < 65536"
  shows "i2c_readfrom4 (eeprom_write_bytes a [b0, b1, b2, b3] mem) a = [b0, b1, b2, b3]"
proof -
  have "word_address a = a" using assms by (simp add: word_address_id)
  then show ?thesis
    unfolding eeprom_write_bytes_4 [OF assms] by (simp add: i2c_readfrom4_def Let_def)
qed

lemma read_after_slot0_zero_write:
  assumes "name = ''MQII'' \<and> base = 0 \<or> name = ''MQIV'' \<and> base = 42 \<or> name = ''TEMP'' \<and> base = 84"
  shows "read_last_value ok (eeprom_write_bytes (base * PAGE_SIZE) [0, 0, 0, 0] mem) name 0 = None"
proof -
  have b: "0 \<le> base * PAGE_SIZE" "base * PAGE_SIZE + 3 < 65536"
    using assms by (auto simp: PAGE_SIZE_def)
  note r = i2c_readfrom4_written [OF b, of 0 0 0 0 mem]
  show ?thesis using assms r
    by (auto simp: read_last_value_def Let_def simp del: eeprom_write_bytes.simps)
qed

lemma zero_write_slot0_reads_absent:
  assumes "addr \<in> set ADDR_LIST"
    and "write_pointers st addr = Some p" and "0 \<le> p" and "p < 4"
    and "shadow_stale now addr st \<or> p = 0"
    and "\<not> ticks_diff now' now < TTL_MS"
  shows "fst (eeprom_read now' ok addr (snd (eeprom_write now addr (Some 0) st))) = Inr None"
proof -
  obtain base name where slots: "EEPROM_SLOTS addr = Some [base, base + 1, base + 2, base + 3]"
    and name: "NAME_MAP addr = Some name"
    and nb: "name = ''MQII'' \<and> base = 0 \<or> name = ''MQIV'' \<and> base = 42 \<or> name = ''TEMP'' \<and> base = 84"
    using assms(1) by (auto simp: config_defs)
  let ?st' = "snd (eeprom_write now addr (Some 0) st)"
  have z: "float_bytes 0 = [0, 0, 0, 0]" by (simp add: float_bytes_def)
  have slot: "(if shadow_stale now addr st then 0 else p) = 0" using assms(5) by auto
  have w: "eeprom ?st' = eeprom_write_bytes (base * PAGE_SIZE) [0, 0, 0, 0] (eeprom st)"
    "write_pointers ?st' addr = Some 1"
    "eeprom_ttl ?st' addr = Some \<lparr>timestamp = now, ttl_value = Some 0\<rparr>"
    unfolding eeprom_write_Some [OF slots assms(2-4)] slot z
    by (simp_all del: eeprom_write_bytes.simps)
  have "fst (eeprom_read now' ok addr ?st') = Inr (read_last_value ok (eeprom ?st') name 0)"
    using w(2,3) name assms(6) by (simp add: eeprom_read_def Let_def)
  then show ?thesis
    unfolding w(1) using read_after_slot0_zero_write [OF nb] by simp
qed

text \<open>
  Packing and unpacking a float are inverse, and a float written to slot 0 whose bytes are
  no sentinel is read back from the medium: slot 0 is the one slot that \<open>eeprom_write\<close> and
  \<open>read_last_value\<close> place at the same address.
\<close>

lemma struct_unpack_pack: "struct_unpack (float_bytes w) = w"
proof (rule bit_word_eqI)
  fix n :: nat
  assume n: "n < LENGTH(32)"
  have four: "n < 8 \<or> (8 \<le> n \<and> n < 16) \<or> (16 \<le> n \<and> n < 24) \<or> (24 \<le> n \<and> n < 32)"
    using n by auto
  show "bit (struct_unpack (float_bytes w)) n = bit w n"
    using four by (auto simp: struct_unpack_def float_bytes_def bit_simps)
qed

lemma read_after_slot0_write:
  assumes nb: "name = ''MQII'' \<and> base = 0 \<or> name = ''MQIV'' \<and> base = 42 \<or> name = ''TEMP'' \<and> base = 84"
    and nf: "float_bytes v \<noteq> [0xFF, 0xFF, 0xFF, 0xFF]" and nz: "float_bytes v \<noteq> [0x00, 0x00, 0x00, 0x00]"
  shows "read_last_value True (eeprom_write_bytes (base * PAGE_SIZE) (float_bytes v) mem) name 0 = Some v"
proof -
  define mem' where "mem' = eeprom_write_bytes (base * PAGE_SIZE) (float_bytes v) mem"
  have b: "0 \<le> base * PAGE_SIZE" "base * PAGE_SIZE + 3 < 65536"
    using nb by (auto simp: PAGE_SIZE_def)
  have r: "i2c_readfrom4 mem' (base * PAGE_SIZE) = float_bytes v"
    unfolding mem'_def float_bytes_def by (rule i2c_readfrom4_written [OF b])
  have a: "(if name = ''MQII'' then Some (0 * PAGE_SIZE + 0 * 4)
            else if name = ''MQIV'' then Some (42 * PAGE_SIZE + 0 * 4)
            else if name = ''TEMP'' then Some (84 * PAGE_SIZE + 0 * 4)
            else None) = Some (base * PAGE_SIZE)"
    using nb by auto
  have "read_last_value True mem' name 0 = Some (struct_unpack (float_bytes v))"
    unfolding read_last_value_def a using r nf nz by (simp add: Let_def)
  then show ?thesis by (simp add: mem'_def struct_unpack_pack)
qed

lemma slot0_write_read_back:
  assumes "addr \<in> set ADDR_LIST"
    and "write_pointers st addr = Some p" and "0 \<le> p" and "p < 4"
    and "shadow_stale now addr st \<or> p = 0"
    and "\<not> ticks_diff now' now < TTL_MS"
    and "float_bytes v \<noteq> [0xFF, 0xFF, 0xFF, 0xFF]" and "float_bytes v \<noteq> [0x00, 0x00, 0x00, 0x00]"
  shows "fst (eeprom_read now' True addr (snd (eeprom_write now addr (Some v) st))) = Inr (Some v)"
proof -
  obtain base name where slots: "EEPROM_SLOTS addr = Some [base, base + 1, base + 2, base + 3]"
    and name: "NAME_MAP addr = Some name"
    and nb: "name = ''MQII'' \<and> base = 0 \<or> name = ''MQIV'' \<and> base = 42 \<or> name = ''TEMP'' \<and> base = 84"
    using assms(1) by (auto simp: config_defs)
  define st' where "st' = snd (eeprom_write now addr (Some v) st)"
  have slot: "(if shadow_stale now addr st then 0 else p) = 0" using assms(5) by auto
  have w: "eeprom st' = eeprom_write_bytes (base * PAGE_SIZE) (float_bytes v) (eeprom st)"
    "write_pointers st' addr = Some 1"
    "eeprom_ttl st' addr = Some \<lparr>timestamp = now, ttl_value = Some v\<rparr>"
    unfolding st'_def eeprom_write_Some [OF slots assms(2-4)] slot
    by (simp_all del: eeprom_write_bytes.simps)
  have "fst (eeprom_read now' True addr st') = Inr (read_last_value True (eeprom st') name 0)"
    using w(2,3) name assms(6) by (simp add: eeprom_read_def Let_def)
  also have "read_last_value True (eeprom st') name 0 = Some v"
    unfolding w(1) by (rule read_after_slot0_write [OF nb assms(7,8)])
  finally show ?thesis by (simp add: st'_def)
qed

text \<open>
  Every foreground request starts with \<open>check_ttl\<close> outside \<open>cache_lock\<close>, and every
  background step that has a sensor value ends with \<open>update_cache\<close> outside it: from an
  empty trace, neither keeps the lock discipline.
\<close>

lemma eeprom_read_events:
  "\<exists>es. events (snd (eeprom_read now ok addr st)) = events st @ es"
  by (simp add: eeprom_read_def Let_def split: option.splits)

lemma eeprom_write_events:
  "\<exists>es. events (snd (eeprom_write now addr data st)) = events st @ es"
  by (auto simp: eeprom_write_def Let_def dest!: expired_slots_loop_ok
      split: option.splits sum.splits prod.splits)

lemma request_lookup_events:
  "\<exists>es. events (snd (request_lookup clk ok addr st)) = events st @ Access CacheData # es"
proof -
  let ?st1 = "check_ttl (t_check clk) addr (st\<lparr>total_access := total_access st + 1\<rparr>)"
  let ?st2 = "emit (Release cache_lock) (emit (Access CacheData) (emit (Acquire cache_lock) ?st1))"
  obtain es where es: "events (snd (eeprom_read (t_read clk) ok addr ?st2)) = events ?st2 @ es"
    using eeprom_read_events by blast
  show ?thesis
    using es
    by (cases "eeprom_read (t_read clk) ok addr ?st2")
       (auto simp: request_lookup_def Let_def split: option.splits sum.splits)
qed

lemma request_data_events:
  "\<exists>es. events (snd (request_data clk ok env addr st)) = events st @ Access CacheData # es"
proof -
  obtain r st1 where l: "request_lookup clk ok addr st = (r, st1)"
    by (cases "request_lookup clk ok addr st")
  obtain es where es: "events st1 = events st @ Access CacheData # es"
    using request_lookup_events [of clk ok addr st] l by auto
  show ?thesis
  proof (cases r)
    case None
    obtain es' where "events (snd (eeprom_write (t_write clk) addr (read_sensor env addr) st1)) =
        events st1 @ es'"
      using eeprom_write_events by blast
    then show ?thesis using None l es
      by (cases "eeprom_write (t_write clk) addr (read_sensor env addr) st1")
         (auto simp: request_data_def request_produce_def Let_def split: option.splits)
  next
    case (Some a)
    then show ?thesis using l es by (simp add: request_data_def)
  qed
qed

lemma disciplined_unguarded: "\<not> disciplined [] (Access x # es)"
  by simp

lemma request_data_breaks_discipline:
  "events st = [] \<Longrightarrow> \<not> disciplined [] (events (snd (request_data clk ok env addr st)))"
  using request_data_events [of clk ok env addr st] by auto

lemma sensor_loop_body_breaks_discipline:
  assumes "events st = []" and "addr \<in> set ADDR_LIST" and "wf_state st"
    and "read_sensor env addr \<noteq> None"
  shows "events (snd (sensor_loop_body clk env addr st)) =
           [Acquire eeprom_lock, Access StoreData, Release eeprom_lock, Access CacheData]"
    and "\<not> disciplined [] (events (snd (sensor_loop_body clk env addr st)))"
proof -
  obtain base where slots: "EEPROM_SLOTS addr = Some [base, base + 1, base + 2, base + 3]"
    using EEPROM_SLOTS_cases [OF assms(2)] by blast
  obtain p where p: "write_pointers st addr = Some p" "0 \<le> p" "p < 4"
    using wf_stateD [OF assms(3,2)] by blast
  obtain v where v: "read_sensor env addr = Some v" using assms(4) by auto
  show e: "events (snd (sensor_loop_body clk env addr st)) =
           [Acquire eeprom_lock, Access StoreData, Release eeprom_lock, Access CacheData]"
    using assms(1) v eeprom_write_Some [OF slots p, of "t_write clk" v]
    by (simp add: sensor_loop_body_def Let_def)
  show "\<not> disciplined [] (events (snd (sensor_loop_body clk env addr st)))"
    unfolding e by simp
qed

text \<open>The predicate \<open>disciplined\<close> holds of the calls that stay inside their lock.\<close>

lemma store_calls_disciplined:
  "disciplined [] (events (snd (eeprom_write 104 ADDR_MQ2 (Some 0x3F800000) (init_state erased_medium)))) \<and>
   disciplined [] (events (snd (eeprom_read 104 True ADDR_MQ2 (init_state erased_medium))))"
  by (simp add: model_defs config_defs)

section \<open>The claims\<close>

text \<open>
  C5. Capacity invariant: from any cache with distinct keys and at most \<open>CACHE_SIZE\<close>
  entries (the empty initial cache is one), every sequence of \<open>update_cache\<close> calls leaves
  a cache with distinct keys and at most \<open>CACHE_SIZE\<close> entries.
\<close>

theorem cache_capacity_invariant:
  "distinct (map fst (cache st)) \<Longrightarrow> int (length (cache st)) \<le> CACHE_SIZE \<Longrightarrow>
   distinct (map fst (cache (update_cache_seq ps st))) \<and>
   int (length (cache (update_cache_seq ps st))) \<le> CACHE_SIZE"
proof (induction ps arbitrary: st)
  case Nil
  then show ?case by simp
next
  case (Cons p ps)
  obtain now addr v where p: "p = (now, addr, v)" by (cases p) auto
  show ?case unfolding p update_cache_seq.simps
    by (rule Cons.IH) (simp_all add: update_cache_distinct update_cache_capacity Cons.prems)
qed

theorem cache_capacity_invariant_witness:
  "distinct (map fst (cache (init_state (\<lambda>a. 0xFF)))) \<and>
   int (length (cache (init_state (\<lambda>a. 0xFF)))) \<le> CACHE_SIZE \<and>
   distinct (map fst (cache (update_cache_seq [(1, ADDR_TEMP, Some 5), (2, ADDR_MQ2, Some 6), (3, ADDR_MQ7, Some 7)]
       (init_state (\<lambda>a. 0xFF))))) \<and>
   int (length (cache (update_cache_seq [(1, ADDR_TEMP, Some 5), (2, ADDR_MQ2, Some 6), (3, ADDR_MQ7, Some 7)]
       (init_state (\<lambda>a. 0xFF))))) \<le> CACHE_SIZE"
  using cache_capacity_invariant [of "init_state (\<lambda>a. 0xFF)"
      "[(1, ADDR_TEMP, Some 5), (2, ADDR_MQ2, Some 6), (3, ADDR_MQ7, Some 7)]"]
  by (simp add: init_state_def CACHE_SIZE_def)

text \<open>
  C1. When the lookup phase of a request finds the channel in neither tier and the
  producer \<open>read_sensor\<close> returns \<open>None\<close>, the request fails: \<open>struct.pack\<close> raises
  \<open>TypeError\<close> inside \<open>eeprom_write\<close> before any byte is sent, and the exception leaves
  \<open>request_data\<close>. Cache, medium, write pointers and shadow records are those of the state
  before the producer was called.
\<close>

theorem producer_absent_writes_nothing:
  assumes "addr \<in> set ADDR_LIST" and "wf_state st"
    and "request_lookup clk bus_ok addr st = (None, st1)"
    and "read_sensor env addr = None"
  shows "fst (request_data clk bus_ok env addr st) = Inl TypeError \<and>
         cache (snd (request_data clk bus_ok env addr st)) = cache st1 \<and>
         eeprom (snd (request_data clk bus_ok env addr st)) = eeprom st1 \<and>
         write_pointers (snd (request_data clk bus_ok env addr st)) = write_pointers st1 \<and>
         eeprom_ttl (snd (request_data clk bus_ok env addr st)) = eeprom_ttl st1"
proof -
  have wp: "write_pointers st1 = write_pointers st"
    using request_lookup_store(1) [OF assms(3)] .
  obtain base where slots: "EEPROM_SLOTS addr = Some [base, base + 1, base + 2, base + 3]"
    using EEPROM_SLOTS_cases [OF assms(1)] by blast
  obtain p where p: "write_pointers st1 addr = Some p" "0 \<le> p" "p < 4"
    using wf_stateD [OF assms(2,1)] wp by auto
  let ?st = "emit (Access StoreData) (emit (Acquire eeprom_lock) st1)"
  have w: "eeprom_write (t_write clk) addr None st1 = (Some TypeError, emit (Release eeprom_lock) ?st)"
  proof (cases "shadow_stale (t_write clk) addr st1")
    case True
    then have "shadow_stale (t_write clk) addr ?st" by simp
    from expired_slots_loop_stale [OF this]
    show ?thesis using slots by (simp add: eeprom_write_def Let_def enumerate_eq_zip)
  next
    case False
    then have "\<not> shadow_stale (t_write clk) addr ?st" by simp
    from expired_slots_loop_fresh [OF this]
    show ?thesis using slots p py_index_slots [OF p(2,3), of base]
      by (simp add: eeprom_write_def Let_def)
  qed
  show ?thesis
    using assms(3,4) w by (simp add: request_data_def request_produce_def Let_def)
qed



theorem producer_absent_writes_nothing_witness:
  "ADDR_MQ7 \<in> set ADDR_LIST \<and> wf_state (init_state erased_medium) \<and>
   fst (request_lookup sample_clock True ADDR_MQ7 (init_state erased_medium)) = None \<and>
   read_sensor sample_sensors ADDR_MQ7 = None \<and>
   fst (request_data sample_clock True sample_sensors ADDR_MQ7 (init_state erased_medium)) =
     Inl TypeError \<and>
   cache (snd (request_data sample_clock True sample_sensors ADDR_MQ7 (init_state erased_medium))) = [] \<and>
   eeprom (snd (request_data sample_clock True sample_sensors ADDR_MQ7 (init_state erased_medium))) =
     erased_medium \<and>
   eeprom_ttl (snd (request_data sample_clock True sample_sensors ADDR_MQ7 (init_state erased_medium)))
     = Map.empty"
proof -
  have h1: "ADDR_MQ7 \<in> set ADDR_LIST" by (simp add: config_defs)
  have h2: "wf_state (init_state erased_medium)" by (simp add: model_defs config_defs)
  have l: "fst (request_lookup sample_clock True ADDR_MQ7 (init_state erased_medium)) = None"
    by (simp add: model_defs config_defs)
  then have h3: "request_lookup sample_clock True ADDR_MQ7 (init_state erased_medium) =
    (None, snd (request_lookup sample_clock True ADDR_MQ7 (init_state erased_medium)))"
    by (simp add: prod_eq_iff)
  have h4: "read_sensor sample_sensors ADDR_MQ7 = None" by (simp add: model_defs config_defs)
  have s1: "cache (snd (request_lookup sample_clock True ADDR_MQ7 (init_state erased_medium))) = []"
    by (simp add: model_defs config_defs)
  have s2: "eeprom (snd (request_lookup sample_clock True ADDR_MQ7 (init_state erased_medium))) =
      erased_medium"
    using request_lookup_store(2) [OF h3] by (simp add: init_state_def)
  have s3: "eeprom_ttl (snd (request_lookup sample_clock True ADDR_MQ7 (init_state erased_medium))) =
      Map.empty"
    using request_lookup_store(3) [OF h3] by (simp add: init_state_def)
  show ?thesis
    using producer_absent_writes_nothing [OF h1 h2 h3 h4] h1 h2 l h4 s1 s2 s3 by simp
qed






text \<open>
  C6, as stated: a put for a channel that is already present removes no other channel's
  entry. It fails: with the cache full and the temperature entry present, a put for the
  temperature channel removes the older entry of the gas channel.
\<close>

theorem put_evicts_present_channels_neighbour:
  "dict_get (cache full_cache_state) ADDR_TEMP \<noteq> None \<and>
   dict_get (cache full_cache_state) ADDR_MQ2 \<noteq> None \<and>
   dict_get (cache (update_cache 10 ADDR_TEMP (Some 0x40000000) full_cache_state)) ADDR_MQ2 = None"
  by (simp add: full_cache_state_def init_state_def update_cache_def emit_def Let_def config_defs)

text \<open>
  C6, amended: \<open>update_cache\<close> evicts an entry with the smallest \<open>last_used\<close> whenever the
  cache already holds at least \<open>CACHE_SIZE\<close> entries, whether or not the channel is
  present; with fewer entries it removes nothing. In every case the channel's entry is
  inserted or overwritten with the value and \<open>last_used = now\<close>, and every entry other than
  the evicted one and the channel's own is kept.
\<close>

theorem update_cache_eviction:
  assumes "distinct (map fst (cache st))"
  shows "dict_get (cache (update_cache now addr v st)) addr =
           Some \<lparr>entry_value = v, last_used = now\<rparr> \<and>
    (int (length (cache st)) < CACHE_SIZE \<longrightarrow>
       (\<forall>k. k \<noteq> addr \<longrightarrow> dict_get (cache (update_cache now addr v st)) k = dict_get (cache st) k)) \<and>
    (int (length (cache st)) \<ge> CACHE_SIZE \<longrightarrow>
       (\<exists>oldest e. dict_get (cache st) oldest = Some e \<and>
          (\<forall>k' e'. dict_get (cache st) k' = Some e' \<longrightarrow> last_used e \<le> last_used e') \<and>
          (oldest \<noteq> addr \<longrightarrow> dict_get (cache (update_cache now addr v st)) oldest = None) \<and>
          (\<forall>k. k \<noteq> addr \<longrightarrow> k \<noteq> oldest \<longrightarrow>
             dict_get (cache (update_cache now addr v st)) k = dict_get (cache st) k)))"
proof (intro conjI impI)
  show "dict_get (cache (update_cache now addr v st)) addr = Some \<lparr>entry_value = v, last_used = now\<rparr>"
    by (rule cache_get_after_update)
next
  assume "int (length (cache st)) < CACHE_SIZE"
  then show "\<forall>k. k \<noteq> addr \<longrightarrow> dict_get (cache (update_cache now addr v st)) k = dict_get (cache st) k"
    by (simp add: cache_update_cache dict_get_set)
next
  assume full: "CACHE_SIZE \<le> int (length (cache st))"
  then obtain kv kvs where c: "cache st = kv # kvs"
    by (cases "cache st") (simp_all add: CACHE_SIZE_def)
  define m where "m = min_last_used kv kvs"
  have mem: "m \<in> set (cache st)" unfolding m_def c by (rule min_last_used_mem)
  then have get: "dict_get (cache st) (fst m) = Some (snd m)"
    using mem_dict_get [OF assms, of "fst m" "snd m"] by simp
  have least: "\<forall>k' e'. dict_get (cache st) k' = Some e' \<longrightarrow> last_used (snd m) \<le> last_used e'"
  proof (intro allI impI)
    fix k' e' assume "dict_get (cache st) k' = Some e'"
    then have "(k', e') \<in> set (kv # kvs)" using dict_get_mem c by metis
    from min_last_used_least [OF this] show "last_used (snd m) \<le> last_used e'" by (simp add: m_def)
  qed
  have c': "cache (update_cache now addr v st) =
      dict_set (dict_del (cache st) (fst m)) addr \<lparr>entry_value = v, last_used = now\<rparr>"
    using full by (simp add: cache_update_cache c m_def del: dict_del.simps)
  have gone: "fst m \<noteq> addr \<longrightarrow> dict_get (cache (update_cache now addr v st)) (fst m) = None"
    by (simp add: c' dict_get_set dict_get_del_same [OF assms])
  have others: "\<forall>k. k \<noteq> addr \<longrightarrow> k \<noteq> fst m \<longrightarrow>
      dict_get (cache (update_cache now addr v st)) k = dict_get (cache st) k"
    by (simp add: c' dict_get_set dict_get_del_other)
  from get least gone others
  show "\<exists>oldest e. dict_get (cache st) oldest = Some e \<and>
          (\<forall>k' e'. dict_get (cache st) k' = Some e' \<longrightarrow> last_used e \<le> last_used e') \<and>
          (oldest \<noteq> addr \<longrightarrow> dict_get (cache (update_cache now addr v st)) oldest = None) \<and>
          (\<forall>k. k \<noteq> addr \<longrightarrow> k \<noteq> oldest \<longrightarrow>
             dict_get (cache (update_cache now addr v st)) k = dict_get (cache st) k)"
    by blast
qed

theorem update_cache_eviction_witness:
  "distinct (map fst (cache full_cache_state)) \<and>
   CACHE_SIZE \<le> int (length (cache full_cache_state)) \<and>
   dict_get (cache (update_cache 10 ADDR_MQ7 (Some 0x40000000) full_cache_state)) ADDR_MQ7 =
     Some \<lparr>entry_value = Some 0x40000000, last_used = 10\<rparr> \<and>
   dict_get (cache full_cache_state) ADDR_MQ2 = Some \<lparr>entry_value = Some 0x3F800000, last_used = 3\<rparr> \<and>
   dict_get (cache (update_cache 10 ADDR_MQ7 (Some 0x40000000) full_cache_state)) ADDR_MQ2 = None \<and>
   dict_get (cache (update_cache 10 ADDR_MQ7 (Some 0x40000000) full_cache_state)) ADDR_TEMP =
     dict_get (cache full_cache_state) ADDR_TEMP \<and>
   distinct (map fst (cache (init_state erased_medium))) \<and>
   int (length (cache (init_state erased_medium))) < CACHE_SIZE \<and>
   dict_get (cache (update_cache 10 ADDR_MQ7 (Some 0x40000000) (init_state erased_medium))) ADDR_TEMP =
     dict_get (cache (init_state erased_medium)) ADDR_TEMP"
proof -
  have h1: "distinct (map fst (cache full_cache_state))"
    by (simp add: full_cache_state_def init_state_def config_defs)
  have h2: "distinct (map fst (cache (init_state erased_medium)))"
    by (simp add: init_state_def)
  show ?thesis
    using update_cache_eviction [OF h1, of 10 ADDR_MQ7 "Some 0x40000000"]
      update_cache_eviction [OF h2, of 10 ADDR_MQ7 "Some 0x40000000"] h1 h2
    by (simp add: full_cache_state_def init_state_def update_cache_def emit_def Let_def config_defs)
qed





text \<open>
  C8, as stated: for every script the rates are \<open>H1 / N\<close> and \<open>(H1 + H2) / N\<close>. It fails:
  the main loop computes percentages, and a request that finds a float on the medium for a
  channel without a shadow record counts a store hit and then raises \<open>KeyError\<close>. Of the two
  requests here the first raises and the second is a cache hit: \<open>cache_hits_rate\<close> is 50
  and \<open>hit_rate\<close> is 100, with \<open>H1 = 1\<close>, \<open>H2 = 0\<close>, \<open>N = 2\<close>.
\<close>

theorem raising_request_is_counted_as_store_hit:
  "fst (run raising_script (init_state fourth_record_medium)) =
     [Inl KeyError, Inr (Some 0x3F800000, ''Cache'', 201)] \<and>
   requests_made raising_script = 2 \<and>
   served_count ''Cache'' (fst (run raising_script (init_state fourth_record_medium))) = 1 \<and>
   served_count ''EEPROM'' (fst (run raising_script (init_state fourth_record_medium))) = 0 \<and>
   total_access (snd (run raising_script (init_state fourth_record_medium))) = 2 \<and>
   cache_hits (snd (run raising_script (init_state fourth_record_medium))) = 1 \<and>
   eeprom_hits (snd (run raising_script (init_state fourth_record_medium))) = 1 \<and>
   cache_hits_rate (snd (run raising_script (init_state fourth_record_medium))) = Inr 50 \<and>
   cache_hits_rate (snd (run raising_script (init_state fourth_record_medium))) \<noteq>
     Inr (real (served_count ''Cache'' (fst (run raising_script (init_state fourth_record_medium)))) /
          real (requests_made raising_script)) \<and>
   hit_rate (snd (run raising_script (init_state fourth_record_medium))) = Inr 100 \<and>
   hit_rate (snd (run raising_script (init_state fourth_record_medium))) \<noteq>
     Inr (real (served_count ''Cache'' (fst (run raising_script (init_state fourth_record_medium))) +
                served_count ''EEPROM'' (fst (run raising_script (init_state fourth_record_medium)))) /
          real (requests_made raising_script)) \<and>
   hit_rate (snd (run raising_script (init_state fourth_record_medium))) \<noteq>
     Inr (real (served_count ''Cache'' (fst (run raising_script (init_state fourth_record_medium))) +
                served_count ''EEPROM'' (fst (run raising_script (init_state fourth_record_medium)))) /
          real (requests_made raising_script) * 100)"
proof -
  have rs: "fst (run raising_script (init_state fourth_record_medium)) =
     [Inl KeyError, Inr (Some 0x3F800000, ''Cache'', 201)]"
    by (simp add: raising_script_def fourth_record_medium_def model_defs config_defs later_clock_def)
  have c: "total_access (snd (run raising_script (init_state fourth_record_medium))) = 2"
    "cache_hits (snd (run raising_script (init_state fourth_record_medium))) = 1"
    "eeprom_hits (snd (run raising_script (init_state fourth_record_medium))) = 1"
    by (simp_all add: raising_script_def fourth_record_medium_def model_defs config_defs later_clock_def)
  have n: "requests_made raising_script = 2"
    by (simp add: requests_made_def raising_script_def)
  show ?thesis
    unfolding rs n using c
    by (simp add: served_count_def cache_hits_rate_def hit_rate_def)
qed

text \<open>
  C8, amended: over any script of foreground requests and background refreshes,
  \<open>total_access\<close> grows by the number of requests and \<open>cache_hits\<close> by the number answered
  from the cache; when no request raised \<open>KeyError\<close>, \<open>eeprom_hits\<close> grows by the number
  answered from the store. The refreshes change no counter. Starting from zero counters,
  the rates the main loop computes are then the percentages
  \<open>cache_hits_rate = H1 / N * 100\<close> and \<open>hit_rate = (H1 + H2) / N * 100\<close>.
\<close>

theorem hit_rate_accounting:
  assumes "run cs st = (rs, st')"
  shows "total_access st' = total_access st + int (requests_made cs) \<and>
    cache_hits st' = cache_hits st + int (served_count ''Cache'' rs) \<and>
    (Inl KeyError \<notin> set rs \<longrightarrow>
       eeprom_hits st' = eeprom_hits st + int (served_count ''EEPROM'' rs) \<and>
       (total_access st = 0 \<and> cache_hits st = 0 \<and> eeprom_hits st = 0 \<and> 0 < requests_made cs \<longrightarrow>
          cache_hits_rate st' =
            Inr (real (served_count ''Cache'' rs) / real (requests_made cs) * 100) \<and>
          hit_rate st' =
            Inr (real (served_count ''Cache'' rs + served_count ''EEPROM'' rs) /
                 real (requests_made cs) * 100)))"
  using run_counters [OF assms]
  by (simp add: cache_hits_rate_def hit_rate_def)

theorem hit_rate_accounting_witness:
  "Inl KeyError \<notin> set (fst (run sample_script (init_state erased_medium))) \<and>
   requests_made sample_script = 3 \<and>
   served_count ''Cache'' (fst (run sample_script (init_state erased_medium))) = 1 \<and>
   served_count ''EEPROM'' (fst (run sample_script (init_state erased_medium))) = 1 \<and>
   total_access (snd (run sample_script (init_state erased_medium))) = 3 \<and>
   cache_hits (snd (run sample_script (init_state erased_medium))) = 1 \<and>
   eeprom_hits (snd (run sample_script (init_state erased_medium))) = 1 \<and>
   cache_hits_rate (snd (run sample_script (init_state erased_medium))) = Inr (1 / 3 * 100) \<and>
   hit_rate (snd (run sample_script (init_state erased_medium))) = Inr (2 / 3 * 100)"
proof -
  have h1: "run sample_script (init_state erased_medium) =
     (fst (run sample_script (init_state erased_medium)),
      snd (run sample_script (init_state erased_medium)))"
    by simp
  have h2: "Inl KeyError \<notin> set (fst (run sample_script (init_state erased_medium)))"
    by (simp add: sample_script_replies)
  have n: "requests_made sample_script = 3"
    by (simp add: requests_made_def sample_script_def)
  have c: "served_count ''Cache'' (fst (run sample_script (init_state erased_medium))) = 1"
    "served_count ''EEPROM'' (fst (run sample_script (init_state erased_medium))) = 1"
    by (simp_all add: served_count_def sample_script_replies)
  have z: "total_access (init_state erased_medium) = 0" "cache_hits (init_state erased_medium) = 0"
    "eeprom_hits (init_state erased_medium) = 0"
    by (simp_all add: init_state_def)
  show ?thesis
    using hit_rate_accounting [OF h1] h2 n c z by simp
qed

text \<open>
  C2. The read is meant to go to the slot last written. After the second write the value
  2.0 sits in slot 1 as \<open>eeprom_write\<close> addresses it (page 1, offset 1: bytes 33 to 36),
  but \<open>eeprom_read\<close>, once the shadow record is stale, reads slot 1 as \<open>read_last_value\<close>
  addresses it (page 0, offset 4: bytes 4 to 7), finds erased bytes and returns \<open>None\<close>.
\<close>

theorem read_misses_last_written_slot:
  "write_pointers twice_written_state ADDR_MQ2 = Some 2 \<and>
   i2c_readfrom4 (eeprom twice_written_state) (1 * PAGE_SIZE + 1) = float_bytes 0x40000000 \<and>
   i2c_readfrom4 (eeprom twice_written_state) (0 * PAGE_SIZE + 1 * 4) = [0xFF, 0xFF, 0xFF, 0xFF] \<and>
   fst (eeprom_read 1000 True ADDR_MQ2 twice_written_state) = Inr None"
  by (simp add: twice_written_state_def model_defs config_defs)

text \<open>
  C9. Neither thread keeps the lock discipline: \<open>request_data\<close> calls \<open>check_ttl\<close> before
  it takes \<open>cache_lock\<close>, and \<open>sensor_loop\<close> calls \<open>update_cache\<close> without taking it.
\<close>

theorem lock_discipline_broken:
  "\<not> disciplined []
       (events (snd (request_data sample_clock True sample_sensors ADDR_TEMP
                       (init_state erased_medium)))) \<and>
   \<not> disciplined []
       (events (snd (sensor_loop_body sample_clock sample_sensors ADDR_MQ2
                       (init_state erased_medium))))"
  by (simp add: model_defs config_defs)

text \<open>
  C10. A write of 0.0 followed by a read of the medium should give \<open>None\<close>, the four zero
  bytes being a sentinel. Here the write of 0.0 goes to slot 1 (bytes 33 to 36) and the
  read, with the shadow record stale, goes to bytes 4 to 7 and returns the float 1.0 stored
  there.
\<close>

theorem zero_write_reads_other_record:
  "write_pointers zero_written_state ADDR_MQ2 = Some 2 \<and>
   i2c_readfrom4 (eeprom zero_written_state) (1 * PAGE_SIZE + 1) = [0x00, 0x00, 0x00, 0x00] \<and>
   fst (eeprom_read 1000 True ADDR_MQ2 zero_written_state) = Inr (Some 0x3F800000)"
  by (simp add: zero_written_state_def recorded_medium_def model_defs config_defs)

end
